theory Spec2Isabelle
  imports Complex_Main
begin

section \<open>Python values and exceptions\<close>

text \<open>
  The program is the notebook \<^verbatim>\<open>lda-sagemaker-demo.ipynb\<close>. Its code cells are
  modelled as functions; an exception raised by a cell is the \<open>Inl\<close> branch of
  a sum. Text is ASCII, one \<open>char\<close> per character.

  The first four exceptions are those that the expressions of the cells raise
  themselves; their messages are not kept, and none of their classes derives
  from \<^verbatim>\<open>RuntimeError\<close>. \<open>Raised classes msg\<close> is an exception that comes out
  of a library call: \<open>classes\<close> names its class and all the base classes of
  that class (\<^verbatim>\<open>type(e).__mro__\<close>), and \<open>msg\<close> is \<^verbatim>\<open>str(e)\<close>.
  \<open>OtherError msg\<close> is an error of a service client, whose class does not
  derive from \<^verbatim>\<open>RuntimeError\<close> either.
\<close>

datatype py_error =
    ValueError
  | IndexError
  | OverflowError
  | AttributeError
  | Raised "string list" string
  | OtherError string

subsection \<open>\<^verbatim>\<open>str.split(sep)\<close> and \<^verbatim>\<open>int(str)\<close>\<close>

text \<open>
  \<^verbatim>\<open>s.split(sep)\<close> with a one-character separator cuts at every occurrence and
  keeps empty pieces: \<^verbatim>\<open>''.split(',') == ['']\<close>.
\<close>

fun split_on :: "char \<Rightarrow> string \<Rightarrow> string list" where
  "split_on sep [] = [[]]"
| "split_on sep (c # cs) =
     (if c = sep then [] # split_on sep cs
      else (case split_on sep cs of
              [] \<Rightarrow> [[c]]
            | w # ws \<Rightarrow> (c # w) # ws))"

text \<open>
  The characters that \<^verbatim>\<open>int\<close> skips at both ends of an ASCII string: tab
  to carriage return (9 to 13) and the blank.
\<close>

definition is_space :: "char \<Rightarrow> bool" where
  "is_space c = (let k = (of_char c :: nat) in (9 \<le> k \<and> k \<le> 13) \<or> k = 32)"

definition strip :: "string \<Rightarrow> string" where
  "strip s = rev (dropWhile is_space (rev (dropWhile is_space s)))"

definition is_digit :: "char \<Rightarrow> bool" where
  "is_digit c = (let k = (of_char c :: nat) in 48 \<le> k \<and> k \<le> 57)"

definition digit_val :: "char \<Rightarrow> nat" where
  "digit_val c = of_char c - 48"

text \<open>
  The digits after the first one: a single underscore may stand between two
  digits, nowhere else.
\<close>

fun digits_val :: "nat \<Rightarrow> string \<Rightarrow> nat option" where
  "digits_val acc [] = Some acc"
| "digits_val acc (c # cs) =
     (if c = CHR ''_'' then
        (case cs of
           [] \<Rightarrow> None
         | d # ds \<Rightarrow> if is_digit d then digits_val (10 * acc + digit_val d) ds else None)
      else if is_digit c then digits_val (10 * acc + digit_val c) cs
      else None)"

definition unsigned_val :: "string \<Rightarrow> nat option" where
  "unsigned_val u =
     (case u of
        [] \<Rightarrow> None
      | d # ds \<Rightarrow> if is_digit d then digits_val (digit_val d) ds else None)"


definition py_int :: "string \<Rightarrow> int option" where
  "py_int s =
     (case strip s of
        [] \<Rightarrow> None
      | c # cs \<Rightarrow>
          if c = CHR ''-'' then map_option (\<lambda>n. - int n) (unsigned_val cs)
          else if c = CHR ''+'' then map_option int (unsigned_val cs)
          else map_option int (unsigned_val (c # cs)))"

subsection \<open>Integers stored in a \<^verbatim>\<open>float64\<close> array\<close>

text \<open>
  \<^verbatim>\<open>np.zeros\<close> makes an array of \<^verbatim>\<open>float64\<close>. Every value the notebook stores
  in it is a Python integer converted to \<^verbatim>\<open>float64\<close>, which is again an
  integer, so a cell is modelled by the integer it holds. The conversion keeps
  53 significant bits, rounding to nearest, ties to even, and raises
  \<^verbatim>\<open>OverflowError\<close> when the rounded value reaches \<open>2 ^ 1024\<close>.
\<close>

fun bit_length :: "nat \<Rightarrow> nat" where
  "bit_length n = (if n = 0 then 0 else Suc (bit_length (n div 2)))"

declare bit_length.simps [simp del]

definition round_half_even :: "nat \<Rightarrow> nat \<Rightarrow> nat" where
  "round_half_even x e =
     (let q = x div 2 ^ e; r = x mod 2 ^ e; h = 2 ^ e div 2
      in if h < r \<or> (r = h \<and> odd q) then (q + 1) * 2 ^ e else q * 2 ^ e)"

definition round_to_binary64 :: "nat \<Rightarrow> nat" where
  "round_to_binary64 x =
     (if x < 2 ^ 53 then x else round_half_even x (bit_length x - 53))"

definition float64_of_int :: "int \<Rightarrow> py_error + int" where
  "float64_of_int v =
     (let m = round_to_binary64 (nat \<bar>v\<bar>)
      in if 2 ^ 1024 \<le> m then Inl OverflowError else Inr (sgn v * int m))"

section \<open>The corpus parser\<close>

text \<open>
  \<^verbatim>\<open>
  bags_of_words = np.zeros([len(word_counts), len(word)])
  for row in range(len(word_counts)):
      for col in word_counts[row].split(','):
          bags_of_words[row, int(col.split(':')[0])-1] = int(col.split(':')[1])
  \<close>
\<close>

text \<open>\<^verbatim>\<open>xs[k]\<close> on a list, for a literal \<open>k \<ge> 0\<close>.\<close>

definition list_item :: "'a list \<Rightarrow> nat \<Rightarrow> py_error + 'a" where
  "list_item xs k = (if k < length xs then Inr (xs ! k) else Inl IndexError)"

text \<open>
  \<^verbatim>\<open>a[k] = v\<close> on one axis of a \<^verbatim>\<open>float64\<close> array of length \<open>n\<close>: an index
  from \<open>-n\<close> to \<open>n - 1\<close> is accepted, a negative one counting from the end;
  the index is checked before the value is converted.
\<close>

definition np_setitem :: "int list \<Rightarrow> int \<Rightarrow> int \<Rightarrow> py_error + int list" where
  "np_setitem row k v =
     (let n = int (length row)
      in if k < - n \<or> n \<le> k then Inl IndexError
         else (case float64_of_int v of
                 Inl e \<Rightarrow> Inl e
               | Inr x \<Rightarrow> Inr (row[nat (if k < 0 then k + n else k) := x])))"

text \<open>
  One assignment of the inner loop. Python evaluates the right-hand side
  first, then the subscript, then stores.
\<close>

definition store_token :: "int list \<Rightarrow> string \<Rightarrow> py_error + int list" where
  "store_token row col =
     (case list_item (split_on CHR '':'' col) 1 of
        Inl e \<Rightarrow> Inl e
      | Inr count_field \<Rightarrow>
     (case py_int count_field of
        None \<Rightarrow> Inl ValueError
      | Some v \<Rightarrow>
     (case list_item (split_on CHR '':'' col) 0 of
        Inl e \<Rightarrow> Inl e
      | Inr index_field \<Rightarrow>
     (case py_int index_field of
        None \<Rightarrow> Inl ValueError
      | Some i \<Rightarrow> np_setitem row (i - 1) v))))"

fun fill_row :: "int list \<Rightarrow> string list \<Rightarrow> py_error + int list" where
  "fill_row row [] = Inr row"
| "fill_row row (col # cols) =
     (case store_token row col of
        Inl e \<Rightarrow> Inl e
      | Inr row' \<Rightarrow> fill_row row' cols)"

text \<open>
  The outer loop. Row \<open>r\<close> of the matrix starts as zeros and is written only
  while line \<open>r\<close> is read, so the matrix is built row by row. The first
  exception ends the cell: \<open>bags_of_words\<close> is that exception, or the
  finished array.
\<close>

fun bags_of_words :: "nat \<Rightarrow> string list \<Rightarrow> py_error + int list list" where
  "bags_of_words vocabulary_size [] = Inr []"
| "bags_of_words vocabulary_size (line # lines) =
     (case fill_row (replicate vocabulary_size 0) (split_on CHR '','' line) of
        Inl e \<Rightarrow> Inl e
      | Inr row \<Rightarrow>
     (case bags_of_words vocabulary_size lines of
        Inl e \<Rightarrow> Inl e
      | Inr rows \<Rightarrow> Inr (row # rows)))"




subsection \<open>What a line of the corpus denotes\<close>

text \<open>
  The corpus file has one document per line, a document being a list of
  (index, count) pairs written as \<^verbatim>\<open>index:count\<close> tokens in decimal and
  separated by commas.
\<close>

definition digit_char :: "nat \<Rightarrow> char" where
  "digit_char d = char_of (48 + d)"

fun show_nat :: "nat \<Rightarrow> string" where
  "show_nat n = (if n < 10 then [digit_char n] else show_nat (n div 10) @ [digit_char (n mod 10)])"

declare show_nat.simps [simp del]

definition show_int :: "int \<Rightarrow> string" where
  "show_int i = (if i < 0 then CHR ''-'' # show_nat (nat (- i)) else show_nat (nat i))"

definition render_token :: "int \<times> int \<Rightarrow> string" where
  "render_token p = show_int (fst p) @ CHR '':'' # show_int (snd p)"

fun join :: "char \<Rightarrow> string list \<Rightarrow> string" where
  "join sep [] = []"
| "join sep [t] = t"
| "join sep (t # u # ts) = t @ sep # join sep (u # ts)"

definition render_document :: "(int \<times> int) list \<Rightarrow> string" where
  "render_document ps = join CHR '','' (map render_token ps)"

text \<open>
  Read back, a well-formed token has exactly two fields, both integers, and a
  line denotes the list of its (index, count) pairs. A document is valid for a
  vocabulary of \<open>V\<close> words when its indices are unique and lie in
  \<open>[1, V]\<close>; the counts are taken among the integers that \<^verbatim>\<open>float64\<close>
  holds exactly. \<open>count_given ps k\<close> is the count that the document gives
  for the index \<open>k\<close>, and 0 when it does not mention \<open>k\<close>.
\<close>

definition token_fields :: "string \<Rightarrow> (int \<times> int) option" where
  "token_fields tok =
     (case split_on CHR '':'' tok of
        [a, b] \<Rightarrow> (case (py_int a, py_int b) of
                     (Some i, Some c) \<Rightarrow> Some (i, c)
                   | _ \<Rightarrow> None)
      | _ \<Rightarrow> None)"

definition sparse_document :: "string \<Rightarrow> (int \<times> int) list option" where
  "sparse_document line = those (map token_fields (split_on CHR '','' line))"

definition valid_document :: "nat \<Rightarrow> (int \<times> int) list \<Rightarrow> bool" where
  "valid_document V ps =
     (distinct (map fst ps) \<and>
      list_all (\<lambda>(i, c). 1 \<le> i \<and> i \<le> int V \<and> \<bar>c\<bar> \<le> 2 ^ 53) ps)"

definition valid_line :: "nat \<Rightarrow> string \<Rightarrow> bool" where
  "valid_line V line =
     (case sparse_document line of
        None \<Rightarrow> False
      | Some ps \<Rightarrow> valid_document V ps)"

definition count_given :: "(int \<times> int) list \<Rightarrow> int \<Rightarrow> int" where
  "count_given ps k = (case map_of ps k of Some c \<Rightarrow> c | None \<Rightarrow> 0)"

definition dense_row :: "nat \<Rightarrow> (int \<times> int) list \<Rightarrow> int list" where
  "dense_row V ps = map (\<lambda>j. count_given ps (int j + 1)) [0..<V]"

definition write_pair :: "int list \<Rightarrow> int \<times> int \<Rightarrow> int list" where
  "write_pair row p = row[nat (fst p - 1) := snd p]"

text \<open>
  The tokens at which an assignment of the loop raises whatever the row holds:
  fewer than two fields, a first or a second field that \<^verbatim>\<open>int\<close> refuses, or
  an index \<open>i\<close> with \<open>i - 1\<close> outside \<open>[-V, V - 1]\<close>. The loop reads the
  first two fields only; what follows a second \<^verbatim>\<open>:\<close> is ignored.
\<close>

definition rejected_token :: "nat \<Rightarrow> string \<Rightarrow> bool" where
  "rejected_token V tok =
     (case split_on CHR '':'' tok of
        a # b # _ \<Rightarrow> (case (py_int a, py_int b) of
                        (Some i, Some c) \<Rightarrow> i < 1 - int V \<or> int V < i
                      | _ \<Rightarrow> True)
      | _ \<Rightarrow> True)"

section \<open>The train/test split\<close>

text \<open>
  \<^verbatim>\<open>
  nbags_of_words = min(bags_of_words.shape[0], 10_000)
  ntopics = 10
  nbags_of_words_training = int(0.95*nbags_of_words)
  nbags_of_words_test = nbags_of_words - nbags_of_words_training
  bags_of_words_training = bags_of_words[:nbags_of_words_training]
  bags_of_words_test = bags_of_words[nbags_of_words_training:nbags_of_words]
  \<close>
  The literal \<^verbatim>\<open>0.95\<close> is the \<^verbatim>\<open>float64\<close> number \<open>8556839292003942 / 2 ^ 53\<close>,
  a little below 95/100. For \<open>n < 2 ^ 53\<close> the product \<^verbatim>\<open>0.95*n\<close> is the exact
  product rounded to 53 significant bits, and \<^verbatim>\<open>int\<close> drops the fraction.
\<close>

definition float64_0_95 :: nat where
  "float64_0_95 = 8556839292003942"

definition int_0_95_times :: "nat \<Rightarrow> nat" where
  "int_0_95_times n = round_to_binary64 (float64_0_95 * n) div 2 ^ 53"

text \<open>
  \<^verbatim>\<open>xs[a:b]\<close> on the first axis: a negative bound counts from the end, and
  both bounds are clipped to the length.
\<close>

definition slice_bound :: "nat \<Rightarrow> int \<Rightarrow> nat" where
  "slice_bound n a = nat (min (int n) (max 0 (if a < 0 then a + int n else a)))"

definition py_slice :: "'a list \<Rightarrow> int \<Rightarrow> int \<Rightarrow> 'a list" where
  "py_slice xs a b =
     (let lo = slice_bound (length xs) a; hi = slice_bound (length xs) b
      in take (hi - lo) (drop lo xs))"

record split =
  nbags_of_words :: int
  ntopics :: int
  nbags_of_words_training :: int
  nbags_of_words_test :: int
  bags_of_words_training :: "int list list"
  bags_of_words_test :: "int list list"

definition split_cell :: "int list list \<Rightarrow> split" where
  "split_cell bags =
     (let n = min (int (length bags)) 10000;
          n_training = int (int_0_95_times (nat n));
          n_test = n - n_training
      in \<lparr> nbags_of_words = n,
           ntopics = 10,
           nbags_of_words_training = n_training,
           nbags_of_words_test = n_test,
           bags_of_words_training = py_slice bags 0 n_training,
           bags_of_words_test = py_slice bags n_training n \<rparr>)"

text \<open>
  The same cell with its two literals as parameters: the row cap, and the
  train fraction as the \<^verbatim>\<open>float64\<close> number \<open>m / 2 ^ k\<close> (with
  \<open>2 ^ 52 \<le> m < 2 ^ 53\<close>). The notebook's cell is the one with the cap
  10000 and the fraction 0.95. The literal \<^verbatim>\<open>0.57\<close> is the \<^verbatim>\<open>float64\<close>
  number \<open>5134103575202365 / 2 ^ 53\<close>.
\<close>

definition int_float_times :: "nat \<Rightarrow> nat \<Rightarrow> nat \<Rightarrow> nat" where
  "int_float_times m k n = round_to_binary64 (m * n) div 2 ^ k"

definition split_with :: "nat \<Rightarrow> nat \<Rightarrow> nat \<Rightarrow> int list list \<Rightarrow> split" where
  "split_with cap m k bags =
     (let n = min (int (length bags)) (int cap);
          n_training = int (int_float_times m k (nat n));
          n_test = n - n_training
      in \<lparr> nbags_of_words = n,
           ntopics = 10,
           nbags_of_words_training = n_training,
           nbags_of_words_test = n_test,
           bags_of_words_training = py_slice bags 0 n_training,
           bags_of_words_test = py_slice bags n_training n \<rparr>)"


section \<open>Training\<close>

text \<open>
  \<^verbatim>\<open>
  lda.set_hyperparameters(
      num_topics = ntopics,
      feature_dim = vocabulary_size,
      mini_batch_size = nbags_of_words_training,
      alpha0 = 1.0,
  )
  \<close>
\<close>

record hyperparameters =
  num_topics :: int
  feature_dim :: nat
  mini_batch_size :: int
  alpha0 :: rat

definition set_hyperparameters :: "split \<Rightarrow> nat \<Rightarrow> hyperparameters" where
  "set_hyperparameters s vocabulary_size =
     \<lparr> num_topics = ntopics s,
       feature_dim = vocabulary_size,
       mini_batch_size = nbags_of_words_training s,
       alpha0 = 1 \<rparr>"

text \<open>
  The remote service and the file system are outside the notebook. A provider
  gives the outcome of each call the cells make: \<^verbatim>\<open>lda.fit\<close> returns once the
  job \<open>j\<close> has completed (\<open>FitReturns j\<close>) or raises, with
  \<^verbatim>\<open>lda.latest_training_job\<close> naming the job when one had been created.
  \<^verbatim>\<open>mx.ndarray.load\<close> returns a list of arrays or a dictionary of named
  arrays, as the file was saved.
\<close>

datatype ndarray = NDArray (shape: "nat list") (entries: "rat list")

datatype loaded =
    ArrayList "ndarray list"
  | ArrayDict "(string \<times> ndarray) list"

datatype fit_outcome =
    FitReturns string
  | FitRaises py_error "string option"

text \<open>
  When the service reports the job as \<^verbatim>\<open>Failed\<close>, the wait inside \<^verbatim>\<open>lda.fit\<close>
  raises a \<^verbatim>\<open>ValueError\<close> (in later versions of the SDK its subclass
  \<^verbatim>\<open>UnexpectedStatusException\<close>) whose message holds the name of the job, its
  status and the failure reason that the service gave. The job had been
  created, so \<^verbatim>\<open>lda.latest_training_job\<close> names it.
\<close>

definition reported_failure :: "bool \<Rightarrow> string \<Rightarrow> string \<Rightarrow> fit_outcome" where
  "reported_failure later_sdk job msg =
     FitRaises
       (Raised ((if later_sdk then [''UnexpectedStatusException''] else [])
                  @ [''ValueError'', ''Exception'', ''BaseException'', ''object'']) msg)
       (Some job)"

record provider =
  fit :: "hyperparameters \<Rightarrow> string \<Rightarrow> fit_outcome"
  download_file :: "string \<Rightarrow> string \<Rightarrow> string \<Rightarrow> py_error option"
  extractall :: "string \<Rightarrow> py_error option"
  listdir :: "string list"
  ndarray_load :: "string \<Rightarrow> py_error + loaded"

text \<open>The notebook variables that the training and the artifact cells read or set.\<close>

record kernel =
  hyperparams :: hyperparameters
  latest_training_job :: "string option"
  s3_train_data :: string
  cred_bucket :: string
  cred_prefix :: string
  fname :: string
  learned :: "(ndarray \<times> ndarray) option"

text \<open>What a cell prints and which outside calls it makes, in order.\<close>

datatype event =
    Printed string
  | PrintedElapsed
  | PrintedShapes "nat list" "nat list"
  | RemoteFit hyperparameters string
  | S3Download string string string
  | TarExtract string

type_synonym cell = "kernel \<Rightarrow> event list \<times> (py_error + kernel)"

text \<open>
  \<^verbatim>\<open>
  start = time.time()
  try:
      lda.fit({'train': s3_train_data})
  except RuntimeError as e:
      print(e)
  end = time.time()
  print("Training took", end - start, "seconds")
  \<close>
\<close>

text \<open>
  \<^verbatim>\<open>except RuntimeError\<close> catches the instances of \<^verbatim>\<open>RuntimeError\<close> and of its
  subclasses; \<^verbatim>\<open>print(e)\<close> writes \<^verbatim>\<open>str(e)\<close>.
\<close>

definition caught_by_RuntimeError :: "py_error \<Rightarrow> bool" where
  "caught_by_RuntimeError e =
     (case e of
        Raised classes msg \<Rightarrow> ''RuntimeError'' \<in> set classes
      | _ \<Rightarrow> False)"

definition str :: "py_error \<Rightarrow> string" where
  "str e = (case e of Raised classes msg \<Rightarrow> msg | OtherError msg \<Rightarrow> msg | _ \<Rightarrow> [])"

definition training_cell :: "provider \<Rightarrow> cell" where
  "training_cell P k =
     (case fit P (hyperparams k) (s3_train_data k) of
        FitReturns job \<Rightarrow>
          ([RemoteFit (hyperparams k) (s3_train_data k), PrintedElapsed],
           Inr (k\<lparr>latest_training_job := Some job\<rparr>))
      | FitRaises e job \<Rightarrow>
          (if caught_by_RuntimeError e then
             ([RemoteFit (hyperparams k) (s3_train_data k), Printed (str e), PrintedElapsed],
              Inr (k\<lparr>latest_training_job :=
                       (case job of None \<Rightarrow> latest_training_job k | Some j \<Rightarrow> Some j)\<rparr>))
           else ([RemoteFit (hyperparams k) (s3_train_data k)], Inl e)))"

text \<open>
  \<^verbatim>\<open>print('Training job name: {}'.format(lda.latest_training_job.job_name))\<close>
\<close>

definition job_name_cell :: cell where
  "job_name_cell k =
     (case latest_training_job k of
        None \<Rightarrow> ([], Inl AttributeError)
      | Some job_name \<Rightarrow> ([Printed (''Training job name: '' @ job_name)], Inr k))"

section \<open>Loading the model artifact\<close>

text \<open>\<^verbatim>\<open>os.path.join\<close> on POSIX paths.\<close>

definition path_join2 :: "string \<Rightarrow> string \<Rightarrow> string" where
  "path_join2 a b =
     (if take 1 b = ''/'' then b
      else if a = [] \<or> last a = CHR ''/'' then a @ b
      else a @ ''/'' @ b)"

definition os_path_join :: "string \<Rightarrow> string list \<Rightarrow> string" where
  "os_path_join a bs = foldl path_join2 a bs"

definition startswith :: "string \<Rightarrow> string \<Rightarrow> bool" where
  "startswith s p = (take (length p) s = p)"

text \<open>
  \<^verbatim>\<open>
  model_list = [fname for fname in os.listdir('.') if fname.startswith('model_')]
  model_fname = model_list[0]
  alpha, beta = mx.ndarray.load(model_fname)
  \<close>
  \<^verbatim>\<open>
  learned_alpha = alpha.asnumpy()
  learned_beta = beta.asnumpy()
  \<close>
  Unpacking a list or a dictionary of any other length than two raises
  \<^verbatim>\<open>ValueError\<close>. Unpacking a dictionary of two arrays binds its two keys,
  which are strings, and \<^verbatim>\<open>alpha.asnumpy()\<close> then raises \<^verbatim>\<open>AttributeError\<close>.
\<close>

definition model_list :: "string list \<Rightarrow> string list" where
  "model_list listing = filter (\<lambda>f. startswith f ''model_'') listing"

definition load_parameters ::
  "string list \<Rightarrow> (string \<Rightarrow> py_error + loaded) \<Rightarrow> py_error + (string \<times> ndarray \<times> ndarray)" where
  "load_parameters listing load =
     (case list_item (model_list listing) 0 of
        Inl e \<Rightarrow> Inl e
      | Inr model_fname \<Rightarrow>
     (case load model_fname of
        Inl e \<Rightarrow> Inl e
      | Inr (ArrayList arrays) \<Rightarrow>
          (case arrays of
             [alpha, beta] \<Rightarrow> Inr (model_fname, alpha, beta)
           | _ \<Rightarrow> Inl ValueError)
      | Inr (ArrayDict items) \<Rightarrow>
          (if length items = 2 then Inl AttributeError else Inl ValueError)))"

text \<open>
  \<^verbatim>\<open>
  job_name = lda.latest_training_job.job_name
  model_fname = 'model.tar.gz'
  model_object = os.path.join(cred['prefix'], 'output', job_name, 'output', model_fname)
  boto3.Session().resource('s3').Bucket(cred['bucket']).Object(model_object).download_file(fname)
  with tarfile.open(fname) as tar:
      tar.extractall()
  print('Downloaded and extracted model tarball: {}'.format(model_object))
  ...
  print('Found model file: {}'.format(model_fname))
  ...
  print('\nLearned alpha.shape = {}'.format(learned_alpha.shape))
  print('Learned beta.shape = {}'.format(learned_beta.shape))
  \<close>
\<close>

definition model_object :: "kernel \<Rightarrow> string \<Rightarrow> string" where
  "model_object k job_name =
     os_path_join (cred_prefix k) [''output'', job_name, ''output'', ''model.tar.gz'']"

definition artifact_cell :: "provider \<Rightarrow> cell" where
  "artifact_cell P k =
     (case latest_training_job k of
        None \<Rightarrow> ([], Inl AttributeError)
      | Some job_name \<Rightarrow>
     (let request = S3Download (cred_bucket k) (model_object k job_name) (fname k)
      in case download_file P (cred_bucket k) (model_object k job_name) (fname k) of
        Some e \<Rightarrow> ([request], Inl e)
      | None \<Rightarrow>
     (case extractall P (fname k) of
        Some e \<Rightarrow> ([request, TarExtract (fname k)], Inl e)
      | None \<Rightarrow>
     (let out = [request, TarExtract (fname k),
                 Printed (''Downloaded and extracted model tarball: '' @ model_object k job_name)]
      in case load_parameters (listdir P) (ndarray_load P) of
        Inl e \<Rightarrow>
          (case list_item (model_list (listdir P)) 0 of
             Inl _ \<Rightarrow> (out, Inl e)
           | Inr model_fname \<Rightarrow> (out @ [Printed (''Found model file: '' @ model_fname)], Inl e))
      | Inr (model_fname, alpha, beta) \<Rightarrow>
          (out @ [Printed (''Found model file: '' @ model_fname),
                  PrintedShapes (shape alpha) (shape beta)],
           Inr (k\<lparr>learned := Some (alpha, beta)\<rparr>))))))"

text \<open>Cells run in order; the first exception stops the run.\<close>

fun run_cells :: "cell list \<Rightarrow> cell" where
  "run_cells [] k = ([], Inr k)"
| "run_cells (c # cs) k =
     (case c k of
        (out, Inl e) \<Rightarrow> (out, Inl e)
      | (out, Inr k') \<Rightarrow> (case run_cells cs k' of (out', r) \<Rightarrow> (out @ out', r)))"

section \<open>Releasing the endpoint\<close>

text \<open>
  \<^verbatim>\<open>sagemaker.Session().delete_endpoint(lda_inference.endpoint)\<close>

  The service keeps the endpoints; its state is \<open>'s\<close>, and \<open>delete\<close> is
  its answer to a delete request: the exception it raises, if any, and its new
  state.
\<close>

definition release_cell ::
  "('s \<Rightarrow> string \<Rightarrow> py_error option \<times> 's) \<Rightarrow> string \<Rightarrow> 's \<Rightarrow> py_error option \<times> 's" where
  "release_cell delete endpoint s = delete s endpoint"

text \<open>Running the cell, and running it again if the first run did not raise.\<close>

definition release_twice ::
  "('s \<Rightarrow> string \<Rightarrow> py_error option \<times> 's) \<Rightarrow> string \<Rightarrow> 's \<Rightarrow> py_error option \<times> 's" where
  "release_twice delete endpoint s =
     (case release_cell delete endpoint s of
        (Some e, s') \<Rightarrow> (Some e, s')
      | (None, s') \<Rightarrow> release_cell delete endpoint s')"

text \<open>
  A service that keeps the list of live endpoints and refuses to delete one
  that is not there.
\<close>

definition strict_delete :: "string list \<Rightarrow> string \<Rightarrow> py_error option \<times> string list" where
  "strict_delete live endpoint =
     (if endpoint \<in> set live then (None, removeAll endpoint live)
      else (Some (OtherError (''Could not find endpoint '' @ endpoint)), live))"

text \<open>A service that accepts every delete request.\<close>

definition lenient_delete :: "string list \<Rightarrow> string \<Rightarrow> py_error option \<times> string list" where
  "lenient_delete live endpoint = (None, removeAll endpoint live)"


section \<open>Concrete inputs\<close>

text \<open>
  A kernel state as the notebook has it before the training cell, a provider
  whose training job fails and leaves no artifact, and a provider that accepts
  everything and whose working directory holds two parameter files.
\<close>

definition kernel0 :: kernel where
  "kernel0 =
     \<lparr> hyperparams = \<lparr> num_topics = 10, feature_dim = 4, mini_batch_size = 9, alpha0 = 1 \<rparr>,
       latest_training_job = None,
       s3_train_data = ''s3://bucket/sagemaker/lda-model/train/lda.data'',
       cred_bucket = ''bucket'',
       cred_prefix = ''sagemaker/lda-model'',
       fname = ''lda.data'',
       learned = None \<rparr>"

definition failing_provider :: provider where
  "failing_provider =
     \<lparr> fit = (\<lambda>hp data. reported_failure False ''lda-job''
                  ''Error training lda-job: Failed Reason: AlgorithmError''),
       download_file = (\<lambda>bucket key file. Some (OtherError ''404 Not Found'')),
       extractall = (\<lambda>file. None),
       listdir = [],
       ndarray_load = (\<lambda>file. Inl (OtherError ''no such file'')) \<rparr>"

definition accepting_provider :: provider where
  "accepting_provider =
     \<lparr> fit = (\<lambda>hp data. FitReturns ''lda-job''),
       download_file = (\<lambda>bucket key file. None),
       extractall = (\<lambda>file. None),
       listdir = [''lda.data'', ''model_a'', ''model_b''],
       ndarray_load = (\<lambda>file. Inr (ArrayList [NDArray [3] [1, 1, 1],
                                                NDArray [2, 5] [0, 0, 0, 0, 0, 0, 0, 0, 0, 0]])) \<rparr>"

section \<open>Properties of the corpus parser\<close>

lemma bit_length_2_53: "bit_length (2 ^ 53) = 54"
  by (simp add: bit_length.simps)

lemma round_to_binary64_exact: "x \<le> 2 ^ 53 \<Longrightarrow> round_to_binary64 x = x"
proof (cases "x < 2 ^ 53")
  case True
  then show ?thesis by (simp add: round_to_binary64_def)
next
  case False
  assume "x \<le> 2 ^ 53"
  with False have x: "x = 2 ^ 53" by simp
  show ?thesis
    unfolding x round_to_binary64_def bit_length_2_53 round_half_even_def
    by simp
qed

lemma float64_of_int_exact: "\<bar>v\<bar> \<le> 2 ^ 53 \<Longrightarrow> float64_of_int v = Inr v"
proof -
  assume v: "\<bar>v\<bar> \<le> 2 ^ 53"
  then have n: "nat \<bar>v\<bar> \<le> 2 ^ 53" by (simp add: nat_le_iff)
  have lt: "(2::nat) ^ 53 < 2 ^ 1024" by simp
  have "\<not> (2::nat) ^ 1024 \<le> nat \<bar>v\<bar>" using n lt by linarith
  moreover have "sgn v * int (nat \<bar>v\<bar>) = v" by (simp add: mult_sgn_abs)
  ultimately show ?thesis
    by (simp add: float64_of_int_def round_to_binary64_exact [OF n])
qed

lemma store_token_fields:
  assumes "token_fields tok = Some (i, c)" and "1 \<le> i" and "i \<le> int (length row)"
    and "\<bar>c\<bar> \<le> 2 ^ 53"
  shows "store_token row tok = Inr (row[nat (i - 1) := c])"
proof -
  from assms(1) obtain a b where ab: "split_on CHR '':'' tok = [a, b]"
    and a: "py_int a = Some i" and b: "py_int b = Some c"
    by (auto simp: token_fields_def split: list.splits option.splits)
  show ?thesis
    using assms(2,3) by (simp add: store_token_def ab a b list_item_def np_setitem_def float64_of_int_exact [OF assms(4)])
qed


lemma fill_row_fields:
  assumes "those (map token_fields toks) = Some ps"
    and "list_all (\<lambda>(i, c). 1 \<le> i \<and> i \<le> int (length row) \<and> \<bar>c\<bar> \<le> 2 ^ 53) ps"
  shows "fill_row row toks = Inr (foldl write_pair row ps)"
  using assms
proof (induction toks arbitrary: row ps)
  case Nil
  then show ?case by simp
next
  case (Cons tok toks)
  from Cons.prems(1) obtain p ps' where p: "token_fields tok = Some p"
    and ps': "those (map token_fields toks) = Some ps'" and ps: "ps = p # ps'"
    by (auto split: option.splits)
  obtain i c where ic: "p = (i, c)" by (cases p)
  from Cons.prems(2) have r: "1 \<le> i" "i \<le> int (length row)" "\<bar>c\<bar> \<le> 2 ^ 53"
    and rest: "list_all (\<lambda>(i, c). 1 \<le> i \<and> i \<le> int (length (write_pair row p)) \<and> \<bar>c\<bar> \<le> 2 ^ 53) ps'"
    by (simp_all add: ps ic write_pair_def)
  have "store_token row tok = Inr (write_pair row p)"
    using store_token_fields [OF p [unfolded ic] r] by (simp add: ic write_pair_def)
  then show ?case
    using Cons.IH [OF ps' rest] by (simp add: ps)
qed

lemma length_foldl_write_pair: "length (foldl write_pair row ps) = length row"
  by (induction ps arbitrary: row) (simp_all add: write_pair_def)

lemma nth_foldl_write_pair:
  assumes "distinct (map fst ps)" and "list_all (\<lambda>(i, c). 1 \<le> i) ps" and "j < length row"
  shows "foldl write_pair row ps ! j = (case map_of ps (int j + 1) of Some c \<Rightarrow> c | None \<Rightarrow> row ! j)"
  using assms
proof (induction ps arbitrary: row)
  case Nil
  then show ?case by simp
next
  case (Cons p ps)
  obtain i c where ic: "p = (i, c)" by (cases p)
  from Cons.prems have d: "distinct (map fst ps)" and ni: "i \<notin> fst ` set ps"
    and pos: "list_all (\<lambda>(i, c). 1 \<le> i) ps" and i1: "1 \<le> i"
    by (simp_all add: ic)
  have len: "j < length (write_pair row p)" using Cons.prems(3) by (simp add: write_pair_def)
  have IH: "foldl write_pair (write_pair row p) ps ! j =
      (case map_of ps (int j + 1) of Some c \<Rightarrow> c | None \<Rightarrow> write_pair row p ! j)"
    by (rule Cons.IH [OF d pos len])
  show ?case
  proof (cases "i = int j + 1")
    case True
    then have "map_of ps (int j + 1) = None" using ni by (simp add: map_of_eq_None_iff)
    moreover have "write_pair row p ! j = c"
      using True Cons.prems(3) by (simp add: write_pair_def ic)
    ultimately show ?thesis using IH True by (simp add: ic split: option.splits)
  next
    case False
    then have "nat (i - 1) \<noteq> j" using i1 by auto
    then have "write_pair row p ! j = row ! j" by (simp add: write_pair_def ic)
    then show ?thesis using IH False by (simp add: ic split: option.splits)
  qed
qed


lemma fill_row_valid:
  assumes "sparse_document line = Some ps" and "valid_document V ps"
  shows "fill_row (replicate V 0) (split_on CHR '','' line) = Inr (map (\<lambda>j. count_given ps (int j + 1)) [0..<V])"
proof -
  let ?row = "replicate V (0::int)"
  have in_range: "list_all (\<lambda>(i, c). 1 \<le> i \<and> i \<le> int (length ?row) \<and> \<bar>c\<bar> \<le> 2 ^ 53) ps"
    using assms(2) by (simp add: valid_document_def)
  have pos: "list_all (\<lambda>(i, c). 1 \<le> i) ps"
    using assms(2) by (auto simp: valid_document_def list_all_iff)
  have dist: "distinct (map fst ps)"
    using assms(2) by (simp add: valid_document_def)
  have filled: "fill_row ?row (split_on CHR '','' line) = Inr (foldl write_pair ?row ps)"
    using assms(1) in_range unfolding sparse_document_def by (rule fill_row_fields)
  have "foldl write_pair ?row ps = map (\<lambda>j. count_given ps (int j + 1)) [0..<V]"
  proof (rule nth_equalityI)
    show "length (foldl write_pair ?row ps) = length (map (\<lambda>j. count_given ps (int j + 1)) [0..<V])"
      by (simp add: length_foldl_write_pair)
  next
    fix j assume "j < length (foldl write_pair ?row ps)"
    then have j: "j < V" by (simp add: length_foldl_write_pair)
    then have "j < length ?row" by simp
    from nth_foldl_write_pair [OF dist pos this] j
    show "foldl write_pair ?row ps ! j = map (\<lambda>j. count_given ps (int j + 1)) [0..<V] ! j"
      by (simp add: count_given_def split: option.splits)
  qed
  with filled show ?thesis by simp
qed

lemma bags_of_words_valid:
  "list_all (valid_line V) lines \<Longrightarrow>
   bags_of_words V lines =
     Inr (map (\<lambda>line. map (\<lambda>j. count_given (the (sparse_document line)) (int j + 1)) [0..<V]) lines)"
proof (induction lines)
  case Nil
  then show ?case by simp
next
  case (Cons line lines)
  from Cons.prems obtain ps where ps: "sparse_document line = Some ps" and v: "valid_document V ps"
    by (auto simp: valid_line_def split: option.splits)
  from Cons.prems have "list_all (valid_line V) lines" by simp
  from Cons.IH [OF this] fill_row_valid [OF ps v] show ?case by (simp add: ps)
qed

lemmas parser_defs = store_token_def py_int_def strip_def is_space_def unsigned_val_def
  is_digit_def digit_val_def list_item_def np_setitem_def float64_of_int_def
  round_to_binary64_def round_half_even_def token_fields_def sparse_document_def
  valid_line_def valid_document_def count_given_def rejected_token_def

lemmas render_defs = render_document_def render_token_def show_int_def show_nat.simps
  digit_char_def char_of_def bit_Suc_0_iff

lemma replicate_4: "replicate 4 x = [x, x, x, x]"
  by (simp add: numeral_eq_Suc)


lemma upt_4: "[0..<4] = [0, 1, 2, 3]"
  by (simp add: upt_rec)

subsection \<open>Lines written in decimal are read back\<close>

lemma of_char_digit_char: "d < 10 \<Longrightarrow> (of_char (digit_char d) :: nat) = 48 + d"
  by (simp add: digit_char_def)

lemma is_digit_digit_char: "d < 10 \<Longrightarrow> is_digit (digit_char d)"
  by (simp add: is_digit_def of_char_digit_char)

lemma digit_val_digit_char: "d < 10 \<Longrightarrow> digit_val (digit_char d) = d"
  by (simp add: digit_val_def of_char_digit_char)

lemma is_digit_not_special:
  assumes "is_digit c"
  shows "c \<noteq> CHR ''_''" and "c \<noteq> CHR '':''" and "c \<noteq> CHR '',''" and "c \<noteq> CHR ''-''"
    and "c \<noteq> CHR ''+''" and "\<not> is_space c"
  using assms by (auto simp: is_digit_def is_space_def Let_def)

lemma show_nat_digits: "list_all is_digit (show_nat n)"
proof (induction n rule: show_nat.induct)
  case (1 n)
  show ?case
  proof (cases "n < 10")
    case True
    then show ?thesis by (subst show_nat.simps) (simp add: is_digit_digit_char)
  next
    case False
    with 1 have "list_all is_digit (show_nat (n div 10))" by simp
    with False show ?thesis by (subst show_nat.simps) (simp add: is_digit_digit_char)
  qed
qed

lemma show_nat_nonempty: "show_nat n \<noteq> []"
  by (subst show_nat.simps) simp

lemma digits_val_snoc:
  assumes "list_all is_digit ds" and "d < 10"
  shows "digits_val acc (ds @ [digit_char d]) = map_option (\<lambda>v. 10 * v + d) (digits_val acc ds)"
  using assms(1)
proof (induction ds arbitrary: acc)
  case Nil
  show ?case
    using assms(2) is_digit_not_special(1) [OF is_digit_digit_char [OF assms(2)]]
    by (simp add: is_digit_digit_char digit_val_digit_char)
next
  case (Cons c ds)
  then have c: "is_digit c" and ds: "list_all is_digit ds" by simp_all
  from Cons.IH [OF ds] c is_digit_not_special(1) [OF c] show ?case by simp
qed

lemma unsigned_val_snoc:
  assumes "list_all is_digit ds" and "ds \<noteq> []" and "d < 10"
  shows "unsigned_val (ds @ [digit_char d]) = map_option (\<lambda>v. 10 * v + d) (unsigned_val ds)"
proof -
  from assms(2) obtain c cs where ds: "ds = c # cs" by (cases ds) auto
  with assms(1) have c: "is_digit c" and cs: "list_all is_digit cs" by simp_all
  show ?thesis
    using c digits_val_snoc [OF cs assms(3)] by (simp add: unsigned_val_def ds)
qed

lemma unsigned_val_show_nat: "unsigned_val (show_nat n) = Some n"
proof (induction n rule: show_nat.induct)
  case (1 n)
  show ?case
  proof (cases "n < 10")
    case True
    then show ?thesis
      by (subst show_nat.simps) (simp add: unsigned_val_def is_digit_digit_char digit_val_digit_char)
  next
    case False
    with 1 have IH: "unsigned_val (show_nat (n div 10)) = Some (n div 10)" by simp
    have "unsigned_val (show_nat (n div 10) @ [digit_char (n mod 10)])
        = map_option (\<lambda>v. 10 * v + n mod 10) (unsigned_val (show_nat (n div 10)))"
      by (rule unsigned_val_snoc) (simp_all add: show_nat_digits show_nat_nonempty)
    with IH False show ?thesis by (subst show_nat.simps) simp
  qed
qed

lemma strip_no_space:
  assumes "s \<noteq> []" and "\<not> is_space (hd s)" and "\<not> is_space (last s)"
  shows "strip s = s"
proof -
  from assms(1,2) have "dropWhile is_space s = s" by (cases s) simp_all
  moreover from assms(1,3) have "dropWhile is_space (rev s) = rev s"
    by (cases "rev s") (simp_all add: hd_rev [symmetric])
  ultimately show ?thesis by (simp add: strip_def)
qed

lemma show_nat_ends: "is_digit (hd (show_nat n))" "is_digit (last (show_nat n))"
  using show_nat_digits [of n] show_nat_nonempty [of n]
  by (auto simp: list_all_iff)

lemma py_int_show_nat: "py_int (show_nat n) = Some (int n)"
proof -
  have s: "strip (show_nat n) = show_nat n"
    using show_nat_nonempty show_nat_ends by (intro strip_no_space) (auto dest: is_digit_not_special)
  obtain c cs where cs: "show_nat n = c # cs" using show_nat_nonempty [of n] by (cases "show_nat n") auto
  with show_nat_ends(1) [of n] have c: "is_digit c" by simp
  have "unsigned_val (c # cs) = Some n" using unsigned_val_show_nat [of n] by (simp add: cs)
  then show ?thesis
    using is_digit_not_special(4,5) [OF c] by (simp add: py_int_def s [unfolded cs] cs)
qed

lemma py_int_show_int: "py_int (show_int i) = Some i"
proof (cases "i < 0")
  case False
  then show ?thesis by (simp add: show_int_def py_int_show_nat)
next
  case True
  have ne: "CHR ''-'' # show_nat (nat (- i)) \<noteq> []" by simp
  have "strip (CHR ''-'' # show_nat (nat (- i))) = CHR ''-'' # show_nat (nat (- i))"
    using show_nat_ends(2) [of "nat (- i)"] show_nat_nonempty [of "nat (- i)"]
    by (intro strip_no_space) (auto simp: is_space_def dest: is_digit_not_special)
  then show ?thesis
    using True by (simp add: show_int_def py_int_def unsigned_val_show_nat)
qed

lemma split_on_none: "sep \<notin> set s \<Longrightarrow> split_on sep s = [s]"
  by (induction s) auto

lemma split_on_append:
  "sep \<notin> set a \<Longrightarrow> split_on sep (a @ sep # rest) = a # split_on sep rest"
  by (induction a) (auto split: list.splits)

lemma show_int_chars: "c \<in> set (show_int i) \<Longrightarrow> is_digit c \<or> c = CHR ''-''"
  using show_nat_digits by (auto simp: show_int_def list_all_iff split: if_splits)

lemma show_int_no_sep: "CHR '':'' \<notin> set (show_int i)" "CHR '','' \<notin> set (show_int i)"
  using show_int_chars [of _ i] by (auto dest: is_digit_not_special)

lemma token_fields_render: "token_fields (render_token (i, c)) = Some (i, c)"
proof -
  have "split_on CHR '':'' (render_token (i, c)) = [show_int i, show_int c]"
    by (simp add: render_token_def split_on_append split_on_none show_int_no_sep)
  then show ?thesis by (simp add: token_fields_def py_int_show_int)
qed

lemma render_token_no_comma: "CHR '','' \<notin> set (render_token p)"
  by (simp add: render_token_def show_int_no_sep)

lemma split_on_join:
  assumes "ts \<noteq> []" and "\<forall>t \<in> set ts. sep \<notin> set t"
  shows "split_on sep (join sep ts) = ts"
  using assms
proof (induction sep ts rule: join.induct)
  case (1 sep)
  then show ?case by simp
next
  case (2 sep t)
  then show ?case by (simp add: split_on_none)
next
  case (3 sep t u ts)
  then show ?case by (simp add: split_on_append)
qed

lemma sparse_document_render:
  assumes "ps \<noteq> []"
  shows "sparse_document (render_document ps) = Some ps"
proof -
  have "split_on CHR '','' (render_document ps) = map render_token ps"
    unfolding render_document_def using assms
    by (intro split_on_join) (auto simp: render_token_no_comma)
  moreover have "those (map token_fields (map render_token ps)) = Some ps"
    by (induction ps) (auto simp: token_fields_render)
  ultimately show ?thesis by (simp add: sparse_document_def)
qed

lemma valid_line_render:
  assumes "ps \<noteq> []" and "valid_document V ps"
  shows "valid_line V (render_document ps)"
  using assms by (simp add: valid_line_def sparse_document_render)

lemma bags_of_words_render:
  assumes "list_all (\<lambda>ps. ps \<noteq> [] \<and> valid_document V ps) docs"
  shows "bags_of_words V (map render_document docs) = Inr (map (dense_row V) docs)"
proof -
  have "list_all (valid_line V) (map render_document docs)"
    using assms by (auto simp: list_all_iff valid_line_render)
  from bags_of_words_valid [OF this] have "bags_of_words V (map render_document docs) =
      Inr (map (\<lambda>line. dense_row V (the (sparse_document line))) (map render_document docs))"
    by (simp add: dense_row_def)
  also have "map (\<lambda>line. dense_row V (the (sparse_document line))) (map render_document docs)
      = map (dense_row V) docs"
    using assms by (auto simp: list_all_iff sparse_document_render)
  finally show ?thesis .
qed

text \<open>
  Claim C2, as amended. For every corpus of documents that are valid for the
  vocabulary size \<open>V\<close> (each line a non-empty comma-separated list of
  \<^verbatim>\<open>index:count\<close> tokens, the indices unique and in \<open>[1, V]\<close>, the counts
  of magnitude at most \<open>2 ^ 53\<close>), the parser returns a matrix with one row
  of \<open>V\<close> cells per document, and its cell \<open>(r, j)\<close> is the count given for
  index \<open>j + 1\<close> in document \<open>r\<close>, and 0 when the document does not
  mention that index.
\<close>

theorem parser_dense_matrix:
  assumes "list_all (\<lambda>ps. ps \<noteq> [] \<and> valid_document V ps) docs"
  shows "\<exists>M. bags_of_words V (map render_document docs) = Inr M \<and>
           M = map (dense_row V) docs \<and>
           length M = length docs \<and>
           (\<forall>r < length docs. length (M ! r) = V \<and>
              (\<forall>j < V. M ! r ! j = count_given (docs ! r) (int j + 1)))"
  using bags_of_words_render [OF assms] by (simp add: dense_row_def)

text \<open>
  The scenario of C2: the line \<^verbatim>\<open>1:3,2:1\<close> with a vocabulary of 4 words gives
  the row \<open>[3, 1, 0, 0]\<close>.
\<close>

theorem parser_dense_matrix_witness:
  "render_document [(1, 3), (2, 1)] = ''1:3,2:1'' \<and>
   bags_of_words 4 [''1:3,2:1''] = Inr [[3, 1, 0, 0]]"
proof -
  have r: "render_document [(1, 3), (2, 1)] = ''1:3,2:1''" by (simp add: render_defs)
  have v: "list_all (\<lambda>ps. ps \<noteq> [] \<and> valid_document 4 ps) [[(1, 3), (2, 1)]]"
    by (simp add: valid_document_def)
  have d: "dense_row 4 [(1, 3), (2, 1)] = [3, 1, 0, 0]"
    by (simp add: dense_row_def upt_4 count_given_def)
  from parser_dense_matrix [OF v] have "bags_of_words 4 [''1:3,2:1''] = Inr [[3, 1, 0, 0]]"
    by (simp add: r d)
  with r show ?thesis by simp
qed

text \<open>
  C2 as stated fails for a count that \<^verbatim>\<open>float64\<close> does not hold, and for a
  document without words: the count \<open>2 ^ 53 + 1\<close> is stored as \<open>2 ^ 53\<close>,
  and an empty line raises \<^verbatim>\<open>IndexError\<close>.
\<close>

theorem parser_large_count_counterexample:
  "render_document [(1, 9007199254740993)] = ''1:9007199254740993'' \<and>
   bags_of_words 1 [''1:9007199254740993''] = Inr [[9007199254740992]] \<and>
   render_document [] = [] \<and>
   bags_of_words 4 [[]] = Inl IndexError"
proof -
  have "render_document [(1, 9007199254740993)] = ''1:9007199254740993''"
    by (simp add: render_defs)
  moreover have "bags_of_words 1 [''1:9007199254740993''] = Inr [[9007199254740992]]"
    by (simp add: parser_defs bit_length.simps)
  moreover have "render_document [] = []"
    by (simp add: render_document_def)
  moreover have "bags_of_words 4 [[]] = Inl IndexError"
    by (simp add: parser_defs)
  ultimately show ?thesis by (intro conjI)
qed






lemma list_item_0: "list_item (a # xs) 0 = Inr a"
  by (simp add: list_item_def)

lemma list_item_1: "list_item (a # b # xs) (Suc 0) = Inr b"
  by (simp add: list_item_def)













text \<open>
  Claim C9. A token whose index field is 0 does not make the parser fail: the
  index becomes \<open>-1\<close>, the count (of magnitude at most \<open>2 ^ 53\<close>) is
  written into the last column of the row, and the loop goes on with the next
  token.
\<close>

theorem index_zero_last_column:
  assumes "split_on CHR '':'' tok = a # b # rest"
    and "py_int a = Some 0" and "py_int b = Some c" and "\<bar>c\<bar> \<le> 2 ^ 53"
    and "row \<noteq> []"
  shows "store_token row tok = Inr (row[length row - 1 := c]) \<and>
         fill_row row (tok # toks) = fill_row (row[length row - 1 := c]) toks"
proof -
  have n: "0 < length row" using assms(5) by simp
  then have "nat (- 1 + int (length row)) = length row - 1" by linarith
  then have "np_setitem row (0 - 1) c = Inr (row[length row - 1 := c])"
    using n by (simp add: np_setitem_def Let_def float64_of_int_exact [OF assms(4)])
  then have "store_token row tok = Inr (row[length row - 1 := c])"
    by (simp add: store_token_def assms(1,2,3) list_item_0 list_item_1)
  then show ?thesis by simp
qed

text \<open>
  The line \<^verbatim>\<open>0:5\<close> with a vocabulary of 4 words gives the row \<open>[0, 0, 0, 5]\<close>.
\<close>

theorem index_zero_last_column_witness:
  "split_on CHR '':'' ''0:5'' = [''0'', ''5''] \<and> py_int ''0'' = Some 0 \<and> py_int ''5'' = Some 5 \<and>
   store_token [0, 0, 0, 0] ''0:5'' = Inr [0, 0, 0, 5] \<and>
   bags_of_words 4 [''0:5''] = Inr [[0, 0, 0, 5]]"
proof -
  have s: "split_on CHR '':'' ''0:5'' = ''0'' # ''5'' # []" by simp
  have a: "py_int ''0'' = Some 0" by (simp add: parser_defs)
  have b: "py_int ''5'' = Some 5" by (simp add: parser_defs)
  have c: "\<bar>5::int\<bar> \<le> 2 ^ 53" by simp
  have r: "[0, 0, 0, 0::int] \<noteq> []" by simp
  note w = index_zero_last_column [OF s a b c r, of "[]"]
  from w have st: "store_token [0, 0, 0, 0] ''0:5'' = Inr [0, 0, 0, 5]" by simp
  from w have "fill_row [0, 0, 0, 0] [''0:5''] = Inr [0, 0, 0, 5]" by simp
  then have "bags_of_words 4 [''0:5''] = Inr [[0, 0, 0, 5]]" by (simp add: replicate_4)
  with s a b st show ?thesis by simp
qed

section \<open>Properties of the split and of the hyperparameters\<close>

lemma bit_length_upper: "n < 2 ^ bit_length n"
proof (induction n rule: bit_length.induct)
  case (1 n)
  show ?case
  proof (cases "n = 0")
    case True
    then show ?thesis by (simp add: bit_length.simps)
  next
    case False
    with 1 have "n div 2 < 2 ^ bit_length (n div 2)" by simp
    then have "n < 2 * 2 ^ bit_length (n div 2)" by linarith
    with False show ?thesis by (subst bit_length.simps) simp
  qed
qed

lemma bit_length_lower: "0 < n \<Longrightarrow> 2 ^ bit_length n \<le> 2 * n"
proof (induction n rule: bit_length.induct)
  case (1 n)
  then have n: "n \<noteq> 0" by simp
  show ?case
  proof (cases "n div 2 = 0")
    case True
    with n have "n = 1" by presburger
    then show ?thesis by (simp add: bit_length.simps)
  next
    case False
    with 1 n have "2 ^ bit_length (n div 2) \<le> 2 * (n div 2)" by simp
    then have "2 * 2 ^ bit_length (n div 2) \<le> 2 * n" by linarith
    with n show ?thesis by (subst bit_length.simps) simp
  qed
qed

lemma bit_length_le: "n < 2 ^ k \<Longrightarrow> bit_length n \<le> k"
proof (cases "n = 0")
  case True
  then show ?thesis by (simp add: bit_length.simps)
next
  case False
  assume "n < 2 ^ k"
  with bit_length_lower [of n] False have "(2::nat) ^ bit_length n < 2 * 2 ^ k" by simp
  then have "(2::nat) ^ bit_length n < 2 ^ Suc k" by simp
  then have "bit_length n < Suc k" by (simp only: power_strict_increasing_iff rel_simps)
  then show ?thesis by simp
qed

lemma round_half_even_bounds:
  "round_half_even x e \<le> x + 2 ^ e \<and> x < round_half_even x e + 2 ^ e"
proof -
  define P :: nat where "P = 2 ^ e"
  define q where "q = x div P"
  define r where "r = x mod P"
  have P: "0 < P" by (simp add: P_def)
  have x: "x = q * P + r" by (simp add: q_def r_def)
  have r: "r < P" using P by (simp add: r_def)
  have "round_half_even x e = q * P \<or> round_half_even x e = q * P + P"
    by (simp add: round_half_even_def Let_def P_def q_def)
  with x r show ?thesis unfolding P_def [symmetric] by auto
qed

lemma round_half_even_up:
  assumes "0 < d" and "2 * d < 2 ^ e" and "0 < m"
  shows "round_half_even (m * 2 ^ e - d) e = m * 2 ^ e"
proof -
  define P :: nat where "P = 2 ^ e"
  from assms(3) obtain m' where m: "m = Suc m'" by (cases m) auto
  have dP: "2 * d < P" using assms(2) by (simp add: P_def)
  have eq: "m * P - d = m' * P + (P - d)" using dP by (simp add: m)
  have lt: "P - d < P" using assms(1) dP by simp
  have q: "(m * P - d) div P = m'" unfolding eq using lt by simp
  have r: "(m * P - d) mod P = P - d" unfolding eq using lt by simp
  have h: "P div 2 < P - d" using dP by linarith
  show ?thesis
    unfolding round_half_even_def Let_def P_def [symmetric] q r using h by (simp add: m)
qed

lemma float64_0_95_times_20: "20 * float64_0_95 + 8 = 19 * 2 ^ 53"
  by (simp add: float64_0_95_def)

lemma int_0_95_times_eq:
  assumes n: "n \<le> 2 ^ 48"
  shows "int_0_95_times n = 19 * n div 20"
proof -
  define x where "x = float64_0_95 * n"
  define q where "q = 19 * n div 20"
  define r where "r = 19 * n mod 20"
  define R where "R = round_to_binary64 x"
  have n': "n \<le> 281474976710656" using n by simp
  have qr: "19 * n = 20 * q + r" and r20: "r < 20" by (simp_all add: q_def r_def)
  have "20 * x + 8 * n = (20 * float64_0_95 + 8) * n" by (simp add: x_def algebra_simps)
  also have "\<dots> = 2 ^ 53 * (19 * n)" by (simp only: float64_0_95_times_20)
  finally have F: "20 * x + 8 * n = 2 ^ 53 * (20 * q + r)" by (simp only: qr)
  have xn: "x = 8556839292003942 * n" by (simp add: x_def float64_0_95_def)
  have x101: "x < 2 ^ 101" using n' by (simp add: xn)
  have e48: "bit_length x - 53 \<le> 48" using bit_length_le [OF x101] by simp
  have "R div 2 ^ 53 = q"
  proof (cases "r = 0")
    case False
    have P48: "(2::nat) ^ (bit_length x - 53) \<le> 2 ^ 48"
      using e48 by (simp only: power_increasing_iff rel_simps)
    have near: "R \<le> x + 2 ^ 48 \<and> x < R + 2 ^ 48"
    proof (cases "x < 2 ^ 53")
      case True
      then show ?thesis by (simp add: R_def round_to_binary64_def)
    next
      case False
      then have "R = round_half_even x (bit_length x - 53)" by (simp add: R_def round_to_binary64_def)
      with round_half_even_bounds [of x "bit_length x - 53"] P48 show ?thesis by linarith
    qed
    have lo: "2 ^ 53 * q \<le> R" using F near n' False r20 by simp
    have hi: "R < 2 ^ 53 * Suc q" using F near n' False r20 by simp
    from lo hi show ?thesis by (rule div_nat_eqI)
  next
    case True
    with qr have "n mod 20 = 0" by presburger
    then obtain k where k: "n = 20 * k" by auto
    have qk: "q = 19 * k" by (simp add: q_def k)
    show ?thesis
    proof (cases "k = 0")
      case True
      then show ?thesis by (simp add: R_def x_def k qk round_to_binary64_def)
    next
      case False
      define e where "e = bit_length x - 53"
      define P :: nat where "P = 2 ^ e"
      have xk: "x + 8 * k = 2 ^ 53 * (19 * k)" using F True by (simp add: k qk)
      have x53: "\<not> x < 2 ^ 53" using xk False by simp
      with bit_length_upper [of x] have "(2::nat) ^ 53 < 2 ^ bit_length x" by simp
      then have "53 < bit_length x" by (simp only: power_strict_increasing_iff rel_simps)
      then have bl: "bit_length x = 53 + e" by (simp add: e_def)
      have e53: "e \<le> 53" using e48 by (simp add: e_def)
      have "x < 2 ^ 53 * P" using bit_length_upper [of x] by (simp add: bl power_add P_def)
      with xk have P16: "2 * (8 * k) < P" by simp
      have pw: "(2::nat) ^ 53 = 2 ^ (53 - e) * P"
        using e53 by (simp add: P_def power_add [symmetric])
      have T: "2 ^ 53 * (19 * k) = (19 * k * 2 ^ (53 - e)) * P"
        by (simp only: pw) simp
      have "x = (19 * k * 2 ^ (53 - e)) * P - 8 * k" using xk by (simp add: T [symmetric])
      then have up: "round_half_even x e = (19 * k * 2 ^ (53 - e)) * P"
        using round_half_even_up [of "8 * k" e "19 * k * 2 ^ (53 - e)"] P16 False
        by (simp add: P_def)
      have "R = round_half_even x e"
        using x53 by (simp add: R_def round_to_binary64_def e_def)
      also note up
      also note T [symmetric]
      finally have "R = 2 ^ 53 * q" by (simp only: qk)
      then show ?thesis by simp
    qed
  qed
  then show ?thesis by (simp add: int_0_95_times_def R_def x_def q_def)
qed

lemma split_cell_split_with: "split_with 10000 float64_0_95 53 bags = split_cell bags"
  by (simp add: split_with_def split_cell_def int_float_times_def int_0_95_times_def)

lemma nbags_of_words_split_with:
  "nbags_of_words (split_with cap m k bags) = min (int cap) (int (length bags))"
  by (simp add: split_with_def Let_def min.commute)

lemma nbags_of_words_training_split_with:
  assumes "min cap (length bags) \<le> 2 ^ 48"
  shows "nbags_of_words_training (split_with cap float64_0_95 53 bags)
           = 19 * min (int cap) (int (length bags)) div 20"
proof -
  define n where "n = min (int (length bags)) (int cap)"
  have nn: "nat n = min cap (length bags)" by (simp add: n_def min.commute)
  have n0: "0 \<le> n" by (simp add: n_def)
  from assms have "nat n \<le> 2 ^ 48" by (simp only: nn)
  from int_0_95_times_eq [OF this] have "int (int_0_95_times (nat n)) = int (19 * nat n div 20)"
    by simp
  also have "\<dots> = 19 * n div 20" using n0 by (simp add: zdiv_int)
  finally show ?thesis
    by (simp add: split_with_def Let_def n_def min.commute int_float_times_def int_0_95_times_def)
qed


lemma training_bounds_with:
  assumes "min cap (length bags) \<le> 2 ^ 48"
  shows "0 \<le> nbags_of_words_training (split_with cap float64_0_95 53 bags)"
    and "nbags_of_words_training (split_with cap float64_0_95 53 bags)
           \<le> nbags_of_words (split_with cap float64_0_95 53 bags)"
    and "nbags_of_words (split_with cap float64_0_95 53 bags) \<le> int (length bags)"
proof -
  define m where "m = min (int cap) (int (length bags))"
  have m: "0 \<le> m" "m \<le> int (length bags)" by (simp_all add: m_def)
  then have "0 \<le> 19 * m div 20" "19 * m div 20 \<le> m" by simp_all
  with m show "0 \<le> nbags_of_words_training (split_with cap float64_0_95 53 bags)"
    "nbags_of_words_training (split_with cap float64_0_95 53 bags)
       \<le> nbags_of_words (split_with cap float64_0_95 53 bags)"
    "nbags_of_words (split_with cap float64_0_95 53 bags) \<le> int (length bags)"
    unfolding nbags_of_words_training_split_with [OF assms] nbags_of_words_split_with
      m_def [symmetric]
    by simp_all
qed

lemma py_slice_take_drop:
  "0 \<le> a \<Longrightarrow> a \<le> b \<Longrightarrow> b \<le> int (length xs) \<Longrightarrow>
   py_slice xs a b = take (nat (b - a)) (drop (nat a) xs)"
  by (simp add: py_slice_def slice_bound_def Let_def min_def max_def nat_diff_distrib)

lemma bags_of_words_training_split_with:
  assumes "min cap (length bags) \<le> 2 ^ 48"
  shows "bags_of_words_training (split_with cap float64_0_95 53 bags)
           = take (nat (nbags_of_words_training (split_with cap float64_0_95 53 bags))) bags"
proof -
  let ?s = "split_with cap float64_0_95 53 bags"
  have "bags_of_words_training ?s = py_slice bags 0 (nbags_of_words_training ?s)"
    by (simp add: split_with_def Let_def)
  also have "\<dots> = take (nat (nbags_of_words_training ?s - 0)) (drop (nat 0) bags)"
    using training_bounds_with [OF assms] by (intro py_slice_take_drop) simp_all
  finally show ?thesis by simp
qed


lemma length_bags_of_words_training_with:
  assumes "min cap (length bags) \<le> 2 ^ 48"
  shows "int (length (bags_of_words_training (split_with cap float64_0_95 53 bags)))
           = nbags_of_words_training (split_with cap float64_0_95 53 bags)"
  using training_bounds_with [OF assms] by (simp add: bags_of_words_training_split_with [OF assms])


lemma cap_10000: "min 10000 (length bags) \<le> 2 ^ 48"
  by simp

lemma nbags_of_words_training_split:
  "nbags_of_words_training (split_cell bags) = 19 * min 10000 (int (length bags)) div 20"
  using nbags_of_words_training_split_with [OF cap_10000, of bags]
  by (simp add: split_cell_split_with)

lemma length_bags_of_words_training:
  "int (length (bags_of_words_training (split_cell bags))) = nbags_of_words_training (split_cell bags)"
  using length_bags_of_words_training_with [OF cap_10000, of bags]
  by (simp add: split_cell_split_with)


text \<open>
  The fraction of the claim is the decimal number: the \<^verbatim>\<open>float64\<close> number
  that the literal \<^verbatim>\<open>0.95\<close> denotes is below 95/100, and the floor of its
  exact product with 10000 is 9499.
\<close>

lemma float64_0_95_below:
  "100 * float64_0_95 < 95 * 2 ^ 53 \<and> float64_0_95 * 10000 div 2 ^ 53 = 9499"
  by (simp add: float64_0_95_def)




lemma training_cell_first_event:
  "\<exists>out. fst (training_cell P k) = RemoteFit (hyperparams k) (s3_train_data k) # out"
  by (simp add: training_cell_def split: fit_outcome.splits py_error.splits)

text \<open>
  Claim C10. The hyperparameter cell sets \<^verbatim>\<open>mini_batch_size\<close> to
  \<^verbatim>\<open>nbags_of_words_training\<close>, which is the number of rows of the training
  matrix; so the batch size never exceeds the number of training rows, and this
  is the value the training cell sends to the provider.
\<close>

theorem mini_batch_size_is_training_rows:
  "mini_batch_size (set_hyperparameters (split_cell bags) V) = nbags_of_words_training (split_cell bags) \<and>
   mini_batch_size (set_hyperparameters (split_cell bags) V)
     = int (length (bags_of_words_training (split_cell bags))) \<and>
   \<not> int (length (bags_of_words_training (split_cell bags)))
       < mini_batch_size (set_hyperparameters (split_cell bags) V) \<and>
   (\<exists>out. fst (training_cell P (k\<lparr>hyperparams := set_hyperparameters (split_cell bags) V\<rparr>))
      = RemoteFit (set_hyperparameters (split_cell bags) V) (s3_train_data k) # out)"
  using training_cell_first_event [of P "k\<lparr>hyperparams := set_hyperparameters (split_cell bags) V\<rparr>"]
  by (simp add: set_hyperparameters_def length_bags_of_words_training)

section \<open>Properties of the training cell\<close>

lemma model_object_kernel0:
  "model_object kernel0 ''lda-job'' = ''sagemaker/lda-model/output/lda-job/output/model.tar.gz''"
  by (simp add: model_object_def os_path_join_def path_join2_def kernel0_def)

text \<open>
  The handler: an exception of the \<^verbatim>\<open>RuntimeError\<close> family is printed, the cell
  ends normally and the following cells run, up to the download of the
  artifact.
\<close>

lemma training_cell_caught:
  assumes "fit P (hyperparams k) (s3_train_data k) = FitRaises (Raised classes msg) (Some job)"
    and "''RuntimeError'' \<in> set classes"
  shows "training_cell P k =
           ([RemoteFit (hyperparams k) (s3_train_data k), Printed msg, PrintedElapsed],
            Inr (k\<lparr>latest_training_job := Some job\<rparr>))"
  using assms by (simp add: training_cell_def caught_by_RuntimeError_def str_def)

lemma download_after_caught:
  assumes "fit P (hyperparams k) (s3_train_data k) = FitRaises (Raised classes msg) (Some job)"
    and "''RuntimeError'' \<in> set classes"
  shows "S3Download (cred_bucket k) (model_object k job) (fname k)
           \<in> set (fst (run_cells [training_cell P, job_name_cell, artifact_cell P] k))"
proof -
  let ?k = "k\<lparr>latest_training_job := Some job\<rparr>"
  have j: "job_name_cell ?k = ([Printed (''Training job name: '' @ job)], Inr ?k)"
    by (simp add: job_name_cell_def)
  have mo: "model_object ?k job = model_object k job" by (simp add: model_object_def)
  have "S3Download (cred_bucket k) (model_object k job) (fname k) \<in> set (fst (artifact_cell P ?k))"
    by (simp add: artifact_cell_def Let_def mo split: option.splits sum.splits prod.splits)
  then show ?thesis
    by (simp add: training_cell_caught [OF assms] j split: prod.splits sum.splits) auto
qed

lemma training_cell_propagates:
  assumes "fit P (hyperparams k) (s3_train_data k) = FitRaises e job"
    and "\<not> caught_by_RuntimeError e"
  shows "training_cell P k = ([RemoteFit (hyperparams k) (s3_train_data k)], Inl e)"
  using assms by (simp add: training_cell_def)

lemma reported_failure_not_caught:
  "reported_failure later_sdk job msg = FitRaises e j \<Longrightarrow> \<not> caught_by_RuntimeError e"
  by (auto simp: reported_failure_def caught_by_RuntimeError_def)

text \<open>
  Claim C1. When the service reports the training job as failed, the exception
  that \<^verbatim>\<open>lda.fit\<close> raises for it is not one that the handler of the training
  cell catches: it leaves the cell with its message unchanged, nothing is
  printed in its place, and the run ends there, so neither the job-name cell
  nor the artifact cell runs and no download is requested.
\<close>

theorem training_failure_surfaced:
  assumes "fit P (hyperparams k) (s3_train_data k) = reported_failure later_sdk job msg"
  shows "\<exists>classes.
           training_cell P k =
             ([RemoteFit (hyperparams k) (s3_train_data k)], Inl (Raised classes msg)) \<and>
           run_cells [training_cell P, job_name_cell, artifact_cell P] k =
             ([RemoteFit (hyperparams k) (s3_train_data k)], Inl (Raised classes msg)) \<and>
           str (Raised classes msg) = msg \<and>
           S3Download (cred_bucket k) (model_object k job) (fname k)
             \<notin> set (fst (run_cells [training_cell P, job_name_cell, artifact_cell P] k))"
proof -
  define classes where "classes =
    (if later_sdk then [''UnexpectedStatusException''] else [])
      @ [''ValueError'', ''Exception'', ''BaseException'', ''object'']"
  have f: "fit P (hyperparams k) (s3_train_data k) = FitRaises (Raised classes msg) (Some job)"
    using assms by (simp add: reported_failure_def classes_def)
  have "\<not> caught_by_RuntimeError (Raised classes msg)"
    by (simp add: caught_by_RuntimeError_def classes_def)
  from training_cell_propagates [OF f this]
  have t: "training_cell P k =
      ([RemoteFit (hyperparams k) (s3_train_data k)], Inl (Raised classes msg))" .
  then have r: "run_cells [training_cell P, job_name_cell, artifact_cell P] k =
      ([RemoteFit (hyperparams k) (s3_train_data k)], Inl (Raised classes msg))"
    by simp
  have "str (Raised classes msg) = msg" by (simp add: str_def)
  with t r show ?thesis by (intro exI [of _ classes]) simp
qed

text \<open>
  With the provider whose job fails, the run ends at the training cell with
  the \<^verbatim>\<open>ValueError\<close> that carries the message.
\<close>

theorem training_failure_surfaced_witness:
  "fit failing_provider (hyperparams kernel0) (s3_train_data kernel0)
     = reported_failure False ''lda-job'' ''Error training lda-job: Failed Reason: AlgorithmError'' \<and>
   run_cells [training_cell failing_provider, job_name_cell, artifact_cell failing_provider] kernel0 =
     ([RemoteFit (hyperparams kernel0) (s3_train_data kernel0)],
      Inl (Raised [''ValueError'', ''Exception'', ''BaseException'', ''object'']
             ''Error training lda-job: Failed Reason: AlgorithmError''))"
proof -
  have f: "fit failing_provider (hyperparams kernel0) (s3_train_data kernel0)
     = reported_failure False ''lda-job'' ''Error training lda-job: Failed Reason: AlgorithmError''"
    by (simp add: failing_provider_def)
  from training_failure_surfaced [OF f] obtain classes where
    t: "training_cell failing_provider kernel0 =
      ([RemoteFit (hyperparams kernel0) (s3_train_data kernel0)],
       Inl (Raised classes ''Error training lda-job: Failed Reason: AlgorithmError''))"
    and r: "run_cells [training_cell failing_provider, job_name_cell,
                       artifact_cell failing_provider] kernel0 =
      ([RemoteFit (hyperparams kernel0) (s3_train_data kernel0)],
       Inl (Raised classes ''Error training lda-job: Failed Reason: AlgorithmError''))"
    by blast
  have "training_cell failing_provider kernel0 =
      ([RemoteFit (hyperparams kernel0) (s3_train_data kernel0)],
       Inl (Raised [''ValueError'', ''Exception'', ''BaseException'', ''object'']
              ''Error training lda-job: Failed Reason: AlgorithmError''))"
    by (simp add: training_cell_def failing_provider_def reported_failure_def
        caught_by_RuntimeError_def)
  with t have "classes = [''ValueError'', ''Exception'', ''BaseException'', ''object'']" by simp
  with f r show ?thesis by simp
qed

section \<open>Properties of the artifact loader\<close>

lemma list_item_filter_none:
  "\<forall>f \<in> set listing. \<not> startswith f ''model_'' \<Longrightarrow> list_item (model_list listing) 0 = Inl IndexError"
  by (simp add: model_list_def list_item_def filter_empty_conv)

lemma model_list_first:
  assumes "\<forall>g \<in> set pre. \<not> startswith g ''model_''" and "startswith f ''model_''"
  shows "model_list (pre @ f # post) = f # model_list post"
  using assms by (simp add: model_list_def filter_empty_conv [THEN iffD2])

text \<open>
  Claim C5, as amended. The loader raises \<^verbatim>\<open>IndexError\<close> when no file name in
  the directory starts with \<^verbatim>\<open>model_\<close>. Otherwise it reads the first such file,
  whatever other files follow. When the file holds a list of exactly two
  arrays it returns them without looking at their shapes. It raises
  \<^verbatim>\<open>ValueError\<close> when the file holds a list or a dictionary of another length,
  \<^verbatim>\<open>AttributeError\<close> when it holds a dictionary of two arrays, and passes on
  the error of a failed read.
\<close>

theorem loader_first_match_unchecked:
  "((\<forall>g \<in> set listing. \<not> startswith g ''model_'') \<longrightarrow>
      load_parameters listing load = Inl IndexError) \<and>
   ((\<forall>g \<in> set pre. \<not> startswith g ''model_'') \<and> startswith f ''model_'' \<and>
      load f = Inr (ArrayList [alpha, beta]) \<longrightarrow>
      load_parameters (pre @ f # post) load = Inr (f, alpha, beta)) \<and>
   ((\<forall>g \<in> set pre. \<not> startswith g ''model_'') \<and> startswith f ''model_'' \<and>
      load f = Inr (ArrayList arrays) \<and> length arrays \<noteq> 2 \<longrightarrow>
      load_parameters (pre @ f # post) load = Inl ValueError) \<and>
   ((\<forall>g \<in> set pre. \<not> startswith g ''model_'') \<and> startswith f ''model_'' \<and>
      load f = Inr (ArrayDict items) \<and> length items = 2 \<longrightarrow>
      load_parameters (pre @ f # post) load = Inl AttributeError) \<and>
   ((\<forall>g \<in> set pre. \<not> startswith g ''model_'') \<and> startswith f ''model_'' \<and>
      load f = Inr (ArrayDict items) \<and> length items \<noteq> 2 \<longrightarrow>
      load_parameters (pre @ f # post) load = Inl ValueError) \<and>
   ((\<forall>g \<in> set pre. \<not> startswith g ''model_'') \<and> startswith f ''model_'' \<and>
      load f = Inl e \<longrightarrow>
      load_parameters (pre @ f # post) load = Inl e)"
proof (intro conjI impI)
  assume "\<forall>g \<in> set listing. \<not> startswith g ''model_''"
  then show "load_parameters listing load = Inl IndexError"
    by (simp add: load_parameters_def list_item_filter_none)
next
  assume "(\<forall>g \<in> set pre. \<not> startswith g ''model_'') \<and> startswith f ''model_'' \<and>
      load f = Inr (ArrayList [alpha, beta])"
  then show "load_parameters (pre @ f # post) load = Inr (f, alpha, beta)"
    by (simp add: load_parameters_def model_list_first list_item_def)
next
  assume a: "(\<forall>g \<in> set pre. \<not> startswith g ''model_'') \<and> startswith f ''model_'' \<and>
      load f = Inr (ArrayList arrays) \<and> length arrays \<noteq> 2"
  then have "\<not> (\<exists>x y. arrays = [x, y])" by auto
  with a show "load_parameters (pre @ f # post) load = Inl ValueError"
    by (auto simp: load_parameters_def model_list_first list_item_def split: list.splits)
next
  assume "(\<forall>g \<in> set pre. \<not> startswith g ''model_'') \<and> startswith f ''model_'' \<and>
      load f = Inr (ArrayDict items) \<and> length items = 2"
  then show "load_parameters (pre @ f # post) load = Inl AttributeError"
    by (simp add: load_parameters_def model_list_first list_item_def)
next
  assume "(\<forall>g \<in> set pre. \<not> startswith g ''model_'') \<and> startswith f ''model_'' \<and>
      load f = Inr (ArrayDict items) \<and> length items \<noteq> 2"
  then show "load_parameters (pre @ f # post) load = Inl ValueError"
    by (simp add: load_parameters_def model_list_first list_item_def)
next
  assume "(\<forall>g \<in> set pre. \<not> startswith g ''model_'') \<and> startswith f ''model_'' \<and>
      load f = Inl e"
  then show "load_parameters (pre @ f # post) load = Inl e"
    by (simp add: load_parameters_def model_list_first list_item_def)
qed

text \<open>
  A directory without parameter file, one with two of them, a file with a
  single array, a file with a dictionary of two arrays, a file with an empty
  dictionary and a file that cannot be read.
\<close>

theorem loader_first_match_unchecked_witness:
  "\<not> startswith ''lda.data'' ''model_'' \<and>
   load_parameters [''lda.data''] (ndarray_load accepting_provider) = Inl IndexError \<and>
   startswith ''model_a'' ''model_'' \<and>
   load_parameters ([''lda.data''] @ ''model_a'' # [''model_b'']) (ndarray_load accepting_provider)
     = Inr (''model_a'', NDArray [3] [1, 1, 1], NDArray [2, 5] [0, 0, 0, 0, 0, 0, 0, 0, 0, 0]) \<and>
   load_parameters ([''lda.data''] @ ''model_a'' # [''model_b''])
       (\<lambda>f. Inr (ArrayList [NDArray [3] [1, 1, 1]]))
     = Inl ValueError \<and>
   load_parameters ([''lda.data''] @ ''model_a'' # [''model_b''])
       (\<lambda>f. Inr (ArrayDict [(''alpha'', NDArray [3] [1, 1, 1]), (''beta'', NDArray [3, 1] [1, 1, 1])]))
     = Inl AttributeError \<and>
   load_parameters ([''lda.data''] @ ''model_a'' # [''model_b'']) (\<lambda>f. Inr (ArrayDict []))
     = Inl ValueError \<and>
   load_parameters ([''lda.data''] @ ''model_a'' # [''model_b'']) (\<lambda>f. Inl (OtherError ''bad file''))
     = Inl (OtherError ''bad file'')"
proof -
  have n0: "\<not> startswith ''lda.data'' ''model_''" by (simp add: startswith_def)
  then have n: "\<forall>g \<in> set [''lda.data'']. \<not> startswith g ''model_''" by simp
  have m: "startswith ''model_a'' ''model_''" by (simp add: startswith_def)
  have l: "ndarray_load accepting_provider ''model_a''
      = Inr (ArrayList [NDArray [3] [1, 1, 1], NDArray [2, 5] [0, 0, 0, 0, 0, 0, 0, 0, 0, 0]])"
    by (simp add: accepting_provider_def)
  have "load_parameters [''lda.data''] (ndarray_load accepting_provider) = Inl IndexError"
    using loader_first_match_unchecked
      [where listing = "[''lda.data'']" and load = "ndarray_load accepting_provider"] n
    by blast
  moreover have "load_parameters ([''lda.data''] @ ''model_a'' # [''model_b'']) (ndarray_load accepting_provider)
     = Inr (''model_a'', NDArray [3] [1, 1, 1], NDArray [2, 5] [0, 0, 0, 0, 0, 0, 0, 0, 0, 0])"
    using loader_first_match_unchecked
      [where pre = "[''lda.data'']" and f = "''model_a''" and load = "ndarray_load accepting_provider"] n m l
    by blast
  moreover have "load_parameters ([''lda.data''] @ ''model_a'' # [''model_b''])
       (\<lambda>f. Inr (ArrayList [NDArray [3] [1, 1, 1]]))
     = Inl ValueError"
    using loader_first_match_unchecked
      [where pre = "[''lda.data'']" and f = "''model_a''"
         and load = "\<lambda>f. Inr (ArrayList [NDArray [3] [1, 1, 1]])"
         and arrays = "[NDArray [3] [1, 1, 1]]"] n m
    by simp
  moreover have "load_parameters ([''lda.data''] @ ''model_a'' # [''model_b''])
       (\<lambda>f. Inr (ArrayDict [(''alpha'', NDArray [3] [1, 1, 1]), (''beta'', NDArray [3, 1] [1, 1, 1])]))
     = Inl AttributeError"
    using loader_first_match_unchecked
      [where pre = "[''lda.data'']" and f = "''model_a''"
         and load = "\<lambda>f. Inr (ArrayDict [(''alpha'', NDArray [3] [1, 1, 1]), (''beta'', NDArray [3, 1] [1, 1, 1])])"
         and items = "[(''alpha'', NDArray [3] [1, 1, 1]), (''beta'', NDArray [3, 1] [1, 1, 1])]"] n m
    by simp
  moreover have "load_parameters ([''lda.data''] @ ''model_a'' # [''model_b'']) (\<lambda>f. Inr (ArrayDict []))
     = Inl ValueError"
    using loader_first_match_unchecked
      [where pre = "[''lda.data'']" and f = "''model_a''"
         and load = "\<lambda>f. Inr (ArrayDict [])" and items = "[]"] n m
    by simp
  moreover have "load_parameters ([''lda.data''] @ ''model_a'' # [''model_b'']) (\<lambda>f. Inl (OtherError ''bad file''))
     = Inl (OtherError ''bad file'')"
    using loader_first_match_unchecked
      [where pre = "[''lda.data'']" and f = "''model_a''"
         and load = "\<lambda>f. Inl (OtherError ''bad file'')" and e = "OtherError ''bad file''"] n m
    by simp
  ultimately show ?thesis using n0 m by (intro conjI)
qed

text \<open>
  C5 as stated fails: the directory holds two files named \<^verbatim>\<open>model_...\<close>,
  alpha has 3 entries, beta has 2 rows and 5 columns, the vocabulary has 4
  words, and the loader returns the two arrays.
\<close>

theorem loader_unchecked_counterexample:
  "model_list (listdir accepting_provider) = [''model_a'', ''model_b''] \<and>
   load_parameters (listdir accepting_provider) (ndarray_load accepting_provider)
     = Inr (''model_a'', NDArray [3] [1, 1, 1], NDArray [2, 5] [0, 0, 0, 0, 0, 0, 0, 0, 0, 0]) \<and>
   shape (NDArray [3] [1, 1, 1]) = [3] \<and>
   shape (NDArray [2, 5] [0, 0, 0, 0, 0, 0, 0, 0, 0, 0]) = [2, 5] \<and>
   feature_dim (hyperparams kernel0) = 4"
  by (simp add: load_parameters_def model_list_def startswith_def list_item_def
      accepting_provider_def kernel0_def)

section \<open>Properties of the release cell\<close>

text \<open>
  Claim C7, as amended. The release cell sends one delete request and its
  outcome is the answer of the service, unchanged. Running it twice ends
  without exception exactly when the service accepts the first request and
  also accepts the request for the endpoint it has just deleted.
\<close>

theorem release_outcome_is_providers:
  "release_cell delete endpoint s = delete s endpoint \<and>
   (fst (release_twice delete endpoint s) = None \<longleftrightarrow>
      fst (delete s endpoint) = None \<and> fst (delete (snd (delete s endpoint)) endpoint) = None)"
  by (auto simp: release_cell_def release_twice_def split: prod.splits option.splits)

text \<open>With a service that accepts every request, the second release is a no-op.\<close>

theorem release_outcome_is_providers_witness:
  "release_twice lenient_delete ''lda-endpoint'' [''lda-endpoint''] = (None, [])"
proof -
  have "fst (release_twice lenient_delete ''lda-endpoint'' [''lda-endpoint'']) = None"
    using release_outcome_is_providers [of lenient_delete "''lda-endpoint''" "[''lda-endpoint'']"]
    by (simp add: lenient_delete_def)
  moreover have "snd (release_twice lenient_delete ''lda-endpoint'' [''lda-endpoint'']) = []"
    by (simp add: release_twice_def release_cell_def lenient_delete_def)
  ultimately show ?thesis by (simp add: prod_eq_iff)
qed

text \<open>
  C7 as stated fails: with a service that refuses to delete an endpoint that
  is not there, the first release succeeds and the second one raises.
\<close>

theorem release_twice_counterexample:
  "release_cell strict_delete ''lda-endpoint'' [''lda-endpoint''] = (None, []) \<and>
   release_cell strict_delete ''lda-endpoint'' [] = (Some (OtherError ''Could not find endpoint lda-endpoint''), []) \<and>
   release_twice strict_delete ''lda-endpoint'' [''lda-endpoint'']
     = (Some (OtherError ''Could not find endpoint lda-endpoint''), [])"
  by (simp add: release_twice_def release_cell_def strict_delete_def)

end
